theory Spec2Isabelle
  imports Main "HOL-Library.Sublist"
begin

section \<open>Payload values\<close>

text \<open>
  The server (the latest revision of the Socket.IO entry point, with the handlers
  \<open>user_online\<close>, \<open>join_chat\<close>, \<open>accept_chat\<close>, \<open>send_message\<close>, \<open>typing\<close>,
  \<open>stop_typing\<close>, \<open>mark_as_read\<close> and \<open>disconnect\<close>) is modelled handler by handler. Each
  handler takes the server state and returns the new state together with the list of
  events it emits, in emission order. A handler that awaits is also given in the parts
  between which it is suspended, so that another handler can be run in between.

  An ObjectId is a natural number. A JavaScript string is the list of its UTF-16 code
  units. An identifier arriving in a payload is
  \<^item> \<open>Oid n\<close>: the canonical text of the ObjectId \<open>n\<close>, the 24 lower-case hex digits that
    \<open>toString\<close> gives;
  \<^item> \<open>Spelled n k\<close>: another text that \<open>new mongoose.Types.ObjectId\<close> and the casts of the
    queries accept as the ObjectId \<open>n\<close> (the same digits in upper case, say), \<open>k\<close> telling
    such texts apart;
  \<^item> \<open>Malformed v\<close>: any other string \<open>v\<close>, for which the constructor and the casts throw;
  \<^item> \<open>Absent\<close>: \<open>undefined\<close>, for which the constructor generates a new id.
  The store (MongoDB behind Mongoose) is modelled as two in-memory collections in
  insertion order; a storage call never fails for a reason other than a cast.
\<close>

type_synonym object_id = nat
type_synonym socket_id = nat
type_synonym js_string = "nat list"

datatype id_arg = Oid object_id | Spelled object_id nat | Malformed js_string | Absent

text \<open>The cast of a query condition (\<open>findById\<close>): \<open>None\<close> when it yields no ObjectId.\<close>

fun castId :: "id_arg \<Rightarrow> object_id option" where
  "castId (Oid n) = Some n"
| "castId (Spelled n k) = Some n"
| "castId (Malformed v) = None"
| "castId Absent = None"

text \<open>
  JavaScript truthiness of a payload value: the empty string and \<open>undefined\<close> are falsy.
\<close>

fun truthy :: "id_arg \<Rightarrow> bool" where
  "truthy (Oid n) = True"
| "truthy (Spelled n k) = True"
| "truthy (Malformed v) = (v \<noteq> [])"
| "truthy Absent = False"

text \<open>
  \<open>String.prototype.trim\<close> strips the code units of WhiteSpace and LineTerminator from
  both ends.
\<close>

definition is_white_space :: "nat \<Rightarrow> bool" where
  "is_white_space c =
     (c \<in> {0x09, 0x0A, 0x0B, 0x0C, 0x0D, 0x20, 0xA0, 0x1680, 0x2028, 0x2029, 0x202F,
            0x205F, 0x3000, 0xFEFF}
      \<or> (0x2000 \<le> c \<and> c \<le> 0x200A))"

definition trim :: "js_string \<Rightarrow> js_string" where
  "trim t = rev (dropWhile is_white_space (rev (dropWhile is_white_space t)))"

section \<open>Documents\<close>

datatype status = Sent | Delivered | Read

fun status_rank :: "status \<Rightarrow> nat" where
  "status_rank Sent = 0"
| "status_rank Delivered = 1"
| "status_rank Read = 2"

record chat =
  c_id :: object_id
  participants :: "object_id list"
  lastMessage :: "object_id option"

record message =
  m_id :: object_id
  m_chatId :: object_id
  m_senderId :: object_id
  m_text :: js_string
  m_status :: status
  m_readBy :: "object_id list"
  m_createdAt :: nat

section \<open>Server state and emitted events\<close>

text \<open>
  \<open>onlineUsers\<close> is the module-level \<open>Map\<close> from user id to socket id, keyed by the value
  the client sent. \<open>sockets\<close> is \<open>io.sockets.sockets\<close>, \<open>socket_userId\<close> the \<open>userId\<close>
  property the \<open>user_online\<close> handler sets on a socket, \<open>rooms\<close> the room membership
  kept by the transport (a room is named by a string, for a chat the text of its id).
\<close>

record server =
  onlineUsers :: "id_arg \<rightharpoonup> socket_id"
  sockets :: "socket_id set"
  socket_userId :: "socket_id \<rightharpoonup> id_arg"
  rooms :: "id_arg \<Rightarrow> socket_id set"
  chats :: "chat list"
  messages :: "message list"

datatype presence = Online | Offline

datatype target =
    ToAll
  | ToSocket socket_id
  | ToRoom id_arg
  | ToRoomExcept id_arg socket_id

datatype payload =
    UserStatus id_arg presence
  | ChatJoined object_id
  | ChatHistory "message list"
  | ReceiveMessage "message option"
  | MessageDelivered object_id
  | MessageRead id_arg id_arg
  | UserTyping id_arg
  | UserStoppedTyping id_arg
  | ErrorEvent
  | MessageError

type_synonym emit = "target \<times> payload"

definition join :: "socket_id \<Rightarrow> id_arg \<Rightarrow> server \<Rightarrow> server" where
  "join sock room s = s\<lparr>rooms := (rooms s)(room := insert sock (rooms s room))\<rparr>"

section \<open>Store queries\<close>

text \<open>A fresh \<open>_id\<close>: larger than every id of the collection.\<close>

definition fresh_id :: "object_id list \<Rightarrow> object_id" where
  "fresh_id ids = Suc (foldr max ids 0)"

text \<open>
  \<open>new mongoose.Types.ObjectId(x)\<close>. For \<open>undefined\<close> the constructor generates an id,
  a new one at every call: the \<open>k\<close>-th call of a handler gets an id that no document of
  the store holds and that differs from the ids of its other calls. \<open>None\<close> when the
  constructor throws.
\<close>

definition stored_ids :: "server \<Rightarrow> object_id list" where
  "stored_ids s =
     map c_id (chats s) @ concat (map participants (chats s))
     @ map m_id (messages s) @ map m_chatId (messages s) @ map m_senderId (messages s)
     @ concat (map m_readBy (messages s))"

definition generated_id :: "server \<Rightarrow> nat \<Rightarrow> object_id" where
  "generated_id s k = fresh_id (stored_ids s) + k"

fun ObjectId :: "server \<Rightarrow> nat \<Rightarrow> id_arg \<Rightarrow> object_id option" where
  "ObjectId s k (Oid n) = Some n"
| "ObjectId s k (Spelled n j) = Some n"
| "ObjectId s k (Malformed v) = None"
| "ObjectId s k Absent = Some (generated_id s k)"

text \<open>\<open>ChatModel.findOne({participants: {$all: ps}})\<close>: the first chat holding every id of \<open>ps\<close>.\<close>

definition findOne_all :: "object_id list \<Rightarrow> chat list \<Rightarrow> chat option" where
  "findOne_all ps cs = find (\<lambda>c. list_all (\<lambda>p. p \<in> set (participants c)) ps) cs"

definition findChatById :: "object_id \<Rightarrow> chat list \<Rightarrow> chat option" where
  "findChatById i cs = find (\<lambda>c. c_id c = i) cs"

definition findMessageById :: "object_id \<Rightarrow> message list \<Rightarrow> message option" where
  "findMessageById i ms = find (\<lambda>m. m_id m = i) ms"

text \<open>An update by \<open>_id\<close> changes the first document that matches.\<close>

fun updateOne :: "('a \<Rightarrow> bool) \<Rightarrow> ('a \<Rightarrow> 'a) \<Rightarrow> 'a list \<Rightarrow> 'a list" where
  "updateOne P f [] = []"
| "updateOne P f (x # xs) = (if P x then f x # xs else x # updateOne P f xs)"

text \<open>\<open>ChatModel.create({participants: [a, b]})\<close>.\<close>

definition createChat :: "object_id \<Rightarrow> object_id \<Rightarrow> chat list \<Rightarrow> chat" where
  "createChat a b cs =
     \<lparr>c_id = fresh_id (map c_id cs), participants = [a, b], lastMessage = None\<rparr>"

definition chat_messages :: "object_id \<Rightarrow> message list \<Rightarrow> message list" where
  "chat_messages c ms = filter (\<lambda>m. m_chatId m = c) ms"

text \<open>
  \<open>MessageModel.find({chatId}).sort({createdAt: 1}).limit(50)\<close>: ascending by creation
  time, then the first 50.
\<close>

definition chat_history :: "object_id \<Rightarrow> message list \<Rightarrow> message list" where
  "chat_history c ms = take 50 (sort_key m_createdAt (chat_messages c ms))"

text \<open>
  \<open>readBy.includes(userId)\<close> of a Mongoose array compares the text of \<open>userId\<close> with the
  text of each element: only the canonical text of a reader is found.
\<close>

fun readBy_includes :: "object_id list \<Rightarrow> id_arg \<Rightarrow> bool" where
  "readBy_includes readBy (Oid u) = (u \<in> set readBy)"
| "readBy_includes readBy (Spelled u k) = False"
| "readBy_includes readBy (Malformed v) = False"
| "readBy_includes readBy Absent = False"

section \<open>Handlers\<close>

text \<open>A new connection: a socket object that has no \<open>userId\<close> yet.\<close>

definition connection :: "server \<Rightarrow> socket_id \<Rightarrow> server \<times> emit list" where
  "connection s sock =
     (s\<lparr>sockets := insert sock (sockets s), socket_userId := (socket_userId s)(sock := None)\<rparr>,
      [])"

definition user_online :: "server \<Rightarrow> socket_id \<Rightarrow> id_arg \<Rightarrow> server \<times> emit list" where
  "user_online s sock userId =
     (s\<lparr>onlineUsers := (onlineUsers s)(userId \<mapsto> sock),
        socket_userId := (socket_userId s)(sock \<mapsto> userId)\<rparr>,
      [(ToAll, UserStatus userId Online)])"

text \<open>
  \<open>join_chat\<close> suspends at its first \<open>await\<close>, the \<open>findOne\<close> query: \<open>join_chat_lookup\<close> is
  the handler up to the answer of that query (\<open>None\<close> when a constructor threw),
  \<open>join_chat_resume\<close> the rest of it, run on the state the server has when the answer
  arrives.
\<close>

definition join_chat_lookup :: "server \<Rightarrow> id_arg \<Rightarrow> id_arg \<Rightarrow> (chat option) option" where
  "join_chat_lookup s senderId receiverId =
     (case (ObjectId s 0 senderId, ObjectId s 1 receiverId) of
        (Some a, Some b) \<Rightarrow> Some (findOne_all [a, b] (chats s))
      | _ \<Rightarrow> None)"

text \<open>
  The \<open>if (!chat)\<close> block of \<open>join_chat\<close> and of \<open>send_message\<close>: a chat that was not found
  is created from the pair. \<open>None\<close> when a constructor threw.
\<close>

definition chat_or_create ::
  "chat option \<Rightarrow> server \<Rightarrow> id_arg \<Rightarrow> id_arg \<Rightarrow> (chat \<times> server) option" where
  "chat_or_create found s senderId receiverId =
     (case found of
        Some ch \<Rightarrow> Some (ch, s)
      | None \<Rightarrow>
          (case (ObjectId s 2 senderId, ObjectId s 3 receiverId) of
             (Some a, Some b) \<Rightarrow>
               Some (createChat a b (chats s),
                     s\<lparr>chats := chats s @ [createChat a b (chats s)]\<rparr>)
           | _ \<Rightarrow> None))"

definition notify_receiver ::
  "server \<Rightarrow> id_arg \<Rightarrow> object_id \<Rightarrow> message list \<Rightarrow> server \<times> emit list" where
  "notify_receiver s receiverId chatId msgs =
     (case onlineUsers s receiverId of
        None \<Rightarrow> (s, [])
      | Some receiverSocketId \<Rightarrow>
          if receiverSocketId \<in> sockets s
          then (join receiverSocketId (Oid chatId) s,
                [(ToSocket receiverSocketId, ChatJoined chatId),
                 (ToSocket receiverSocketId, ChatHistory msgs)])
          else (s, []))"

definition join_chat_resume ::
  "chat option \<Rightarrow> server \<Rightarrow> socket_id \<Rightarrow> id_arg \<Rightarrow> id_arg \<Rightarrow> server \<times> emit list" where
  "join_chat_resume found s sock senderId receiverId =
     (case chat_or_create found s senderId receiverId of
        None \<Rightarrow> (s, [(ToSocket sock, ErrorEvent)])
      | Some (ch, s1) \<Rightarrow>
          let chatId = c_id ch;
              s2 = join sock (Oid chatId) s1;
              msgs = chat_history chatId (messages s2);
              (s3, es) = notify_receiver s2 receiverId chatId msgs
          in (s3, [(ToSocket sock, ChatJoined chatId), (ToSocket sock, ChatHistory msgs)] @ es))"

definition join_chat :: "server \<Rightarrow> socket_id \<Rightarrow> id_arg \<Rightarrow> id_arg \<Rightarrow> server \<times> emit list" where
  "join_chat s sock senderId receiverId =
     (case join_chat_lookup s senderId receiverId of
        None \<Rightarrow> (s, [(ToSocket sock, ErrorEvent)])
      | Some found \<Rightarrow> join_chat_resume found s sock senderId receiverId)"

text \<open>
  \<open>accept_chat\<close> joins the room before it constructs the id of \<open>chatId\<close>; its \<open>catch\<close> only
  logs.
\<close>

definition accept_chat :: "server \<Rightarrow> socket_id \<Rightarrow> id_arg \<Rightarrow> server \<times> emit list" where
  "accept_chat s sock chatId =
     (let s1 = join sock chatId s
      in case ObjectId s1 0 chatId of
           None \<Rightarrow> (s1, [])
         | Some c \<Rightarrow> (s1, [(ToSocket sock, ChatHistory (chat_history c (messages s1)))]))"

text \<open>
  \<open>send_message\<close>. \<open>text\<close> is \<open>None\<close> when the payload has no text. \<open>chatId\<close> is \<open>None\<close>
  when the payload has none; an empty string is falsy as well. \<open>now\<close> is the clock
  reading Mongoose stamps on the new message.
\<close>

definition send_message_lookup ::
  "server \<Rightarrow> id_arg \<Rightarrow> id_arg \<Rightarrow> id_arg option \<Rightarrow> (chat option) option" where
  "send_message_lookup s senderId receiverId chatId =
     (let by_pair =
            (case (ObjectId s 0 senderId, ObjectId s 1 receiverId) of
               (Some a, Some b) \<Rightarrow> Some (findOne_all [a, b] (chats s))
             | _ \<Rightarrow> None)
      in case chatId of
           None \<Rightarrow> by_pair
         | Some cid \<Rightarrow>
             if truthy cid
             then (case castId cid of
                     Some c \<Rightarrow> Some (findChatById c (chats s))
                   | None \<Rightarrow> None)
             else by_pair)"

definition join_receiver :: "server \<Rightarrow> id_arg \<Rightarrow> object_id \<Rightarrow> server" where
  "join_receiver s receiverId roomId =
     (case onlineUsers s receiverId of
        None \<Rightarrow> s
      | Some receiverSocketId \<Rightarrow>
          if receiverSocketId \<in> sockets s then join receiverSocketId (Oid roomId) s else s)"

text \<open>
  \<open>MessageModel.create\<close> on the collection \<open>ms\<close> for a sender \<open>a\<close>: status \<open>sent\<close>,
  \<open>readBy\<close> holding the sender, the text trimmed.
\<close>

definition newMessage ::
  "message list \<Rightarrow> nat \<Rightarrow> object_id \<Rightarrow> object_id \<Rightarrow> js_string \<Rightarrow> message" where
  "newMessage ms now chatId a t =
     \<lparr>m_id = fresh_id (map m_id ms), m_chatId = chatId, m_senderId = a,
      m_text = trim t, m_status = Sent, m_readBy = [a], m_createdAt = now\<rparr>"

text \<open>
  The handler from the joins to the answer of \<open>MessageModel.create\<close>: the message is in
  the store, and the handler holds on to \<open>receiverSocketId\<close> (read from \<open>onlineUsers\<close>
  before the message was created) and to the id of the new message. \<open>senderId\<close> goes
  through the constructor twice, for \<open>senderId\<close> and for \<open>readBy\<close>. \<open>None\<close> when the
  constructor threw.
\<close>

definition send_message_create ::
  "server \<Rightarrow> socket_id \<Rightarrow> nat \<Rightarrow> id_arg \<Rightarrow> id_arg \<Rightarrow> js_string \<Rightarrow> chat
   \<Rightarrow> server \<times> (socket_id option \<times> object_id) option" where
  "send_message_create s sock now senderId receiverId t ch =
     (let roomId = c_id ch;
          s2 = join sock (Oid roomId) s;
          receiverSocketId = onlineUsers s2 receiverId;
          s3 = join_receiver s2 receiverId roomId
      in case (ObjectId s3 4 senderId, ObjectId s3 5 senderId) of
           (Some a, Some r) \<Rightarrow>
             let msg = (newMessage (messages s3) now (c_id ch) a t)\<lparr>m_readBy := [r]\<rparr>
             in (s3\<lparr>messages := messages s3 @ [msg]\<rparr>, Some (receiverSocketId, m_id msg))
         | _ \<Rightarrow> (s3, None))"

text \<open>
  The delivery transition, taken when \<open>receiverSocketId\<close> is set: an update of the status
  by the id of the message, whatever the status is by then.
\<close>

definition mark_delivered ::
  "server \<Rightarrow> socket_id option \<Rightarrow> object_id \<Rightarrow> object_id \<Rightarrow> server \<times> emit list" where
  "mark_delivered s receiverSocketId roomId mid =
     (case receiverSocketId of
        None \<Rightarrow> (s, [])
      | Some sid \<Rightarrow>
          (s\<lparr>messages :=
               updateOne (\<lambda>m. m_id m = mid) (\<lambda>m. m\<lparr>m_status := Delivered\<rparr>) (messages s)\<rparr>,
           [(ToRoom (Oid roomId), MessageDelivered mid)]))"

text \<open>
  The rest of the handler, from \<open>chat.save()\<close> on, run on the state the server has when
  the handler resumes: the chat's \<open>lastMessage\<close>, the read of the message for
  populating, its broadcast, the delivery transition, the end of typing.
\<close>

definition send_message_finish ::
  "server \<Rightarrow> socket_id \<Rightarrow> id_arg \<Rightarrow> object_id \<Rightarrow> socket_id option \<times> object_id
   \<Rightarrow> server \<times> emit list" where
  "send_message_finish s sock senderId roomId p =
     (case p of
        (receiverSocketId, mid) \<Rightarrow>
          let s5 = s\<lparr>chats :=
                      updateOne (\<lambda>c. c_id c = roomId)
                        (\<lambda>c. c\<lparr>lastMessage := Some mid\<rparr>) (chats s)\<rparr>;
              populatedMessage = findMessageById mid (messages s5);
              (s6, es) = mark_delivered s5 receiverSocketId roomId mid
          in (s6, [(ToRoom (Oid roomId), ReceiveMessage populatedMessage)] @ es
                  @ [(ToRoomExcept (Oid roomId) sock, UserStoppedTyping senderId)]))"

definition send_message_post ::
  "server \<Rightarrow> socket_id \<Rightarrow> nat \<Rightarrow> id_arg \<Rightarrow> id_arg \<Rightarrow> js_string \<Rightarrow> chat
   \<Rightarrow> server \<times> emit list" where
  "send_message_post s sock now senderId receiverId t ch =
     (case send_message_create s sock now senderId receiverId t ch of
        (s3, None) \<Rightarrow> (s3, [(ToSocket sock, MessageError)])
      | (s5, Some p) \<Rightarrow> send_message_finish s5 sock senderId (c_id ch) p)"

text \<open>The whole handler, when nothing else runs while it is suspended.\<close>

definition send_message ::
  "server \<Rightarrow> socket_id \<Rightarrow> nat \<Rightarrow> id_arg \<Rightarrow> id_arg \<Rightarrow> js_string option \<Rightarrow> id_arg option
   \<Rightarrow> server \<times> emit list" where
  "send_message s sock now senderId receiverId text chatId =
     (case text of
        None \<Rightarrow> (s, [])
      | Some t \<Rightarrow>
          if trim t = [] then (s, [])
          else (case send_message_lookup s senderId receiverId chatId of
                  None \<Rightarrow> (s, [(ToSocket sock, MessageError)])
                | Some found \<Rightarrow>
                    (case chat_or_create found s senderId receiverId of
                       None \<Rightarrow> (s, [(ToSocket sock, MessageError)])
                     | Some (ch, s1) \<Rightarrow>
                         send_message_post s1 sock now senderId receiverId t ch)))"

definition typing :: "server \<Rightarrow> socket_id \<Rightarrow> id_arg \<Rightarrow> id_arg \<Rightarrow> server \<times> emit list" where
  "typing s sock chatId userId = (s, [(ToRoomExcept chatId sock, UserTyping userId)])"

definition stop_typing :: "server \<Rightarrow> socket_id \<Rightarrow> id_arg \<Rightarrow> id_arg \<Rightarrow> server \<times> emit list" where
  "stop_typing s sock chatId userId =
     (s, [(ToRoomExcept chatId sock, UserStoppedTyping userId)])"

text \<open>
  \<open>mark_as_read\<close>. \<open>findById\<close> answers no message for \<open>undefined\<close> and throws for a
  malformed id; the \<open>catch\<close> only logs. The reader is looked up by text and appended
  through the constructor.
\<close>

definition mark_as_read :: "server \<Rightarrow> socket_id \<Rightarrow> id_arg \<Rightarrow> id_arg \<Rightarrow> server \<times> emit list" where
  "mark_as_read s sock messageId userId =
     (case castId messageId of
        None \<Rightarrow> (s, [])
      | Some mid \<Rightarrow>
          (case findMessageById mid (messages s) of
             None \<Rightarrow> (s, [])
           | Some msg \<Rightarrow>
               if readBy_includes (m_readBy msg) userId then (s, [])
               else (case ObjectId s 0 userId of
                       None \<Rightarrow> (s, [])
                     | Some u \<Rightarrow>
                         (s\<lparr>messages :=
                              updateOne (\<lambda>m. m_id m = mid)
                                (\<lambda>m. m\<lparr>m_readBy := m_readBy m @ [u], m_status := Read\<rparr>)
                                (messages s)\<rparr>,
                          [(ToRoom (Oid (m_chatId msg)), MessageRead messageId userId)]))))"

text \<open>
  \<open>disconnect\<close>. The transport has already taken the socket out of \<open>io.sockets.sockets\<close>
  and of every room when the handler runs.
\<close>

definition disconnect :: "server \<Rightarrow> socket_id \<Rightarrow> server \<times> emit list" where
  "disconnect s sock =
     (let s1 = s\<lparr>sockets := sockets s - {sock}, rooms := (\<lambda>r. rooms s r - {sock})\<rparr>
      in case socket_userId s sock of
           None \<Rightarrow> (s1, [])
         | Some u \<Rightarrow>
             if truthy u
             then (s1\<lparr>onlineUsers := (onlineUsers s1)(u := None)\<rparr>,
                   [(ToAll, UserStatus u Offline)])
             else (s1, []))"

definition empty_server :: server where
  "empty_server =
     \<lparr>onlineUsers = Map.empty, sockets = {}, socket_userId = Map.empty,
      rooms = (\<lambda>r. {}), chats = [], messages = []\<rparr>"

section \<open>Example states\<close>

definition hi :: js_string where
  "hi = [104, 105]"

text \<open>A store holding one chat, between the users 10 and 20.\<close>

definition chat_10_20 :: server where
  "chat_10_20 =
     empty_server\<lparr>chats := [\<lparr>c_id = 1, participants = [10, 20], lastMessage = None\<rparr>]\<rparr>"

text \<open>The same store with one message of user 10 in that chat.\<close>

definition one_message :: server where
  "one_message =
     chat_10_20\<lparr>messages := [\<lparr>m_id = 5, m_chatId = 1, m_senderId = 10, m_text = hi,
                               m_status = Sent, m_readBy = [10], m_createdAt = 0\<rparr>]\<rparr>"


text \<open>User 7 has announced itself on socket 1 and then on socket 2.\<close>

definition two_connections :: server where
  "two_connections =
     fst (user_online
            (fst (user_online (fst (connection (fst (connection empty_server 1)) 2))
                    1 (Oid 7)))
            2 (Oid 7))"



text \<open>
  The chat of the users 10 and 20, user 10 connected on socket 1 and user 20 announced
  on socket 2.
\<close>

definition both_connected :: server where
  "both_connected =
     fst (user_online (fst (connection (fst (connection chat_10_20 1)) 2)) 2 (Oid 20))"

text \<open>
  A \<open>send_message\<close> of user 10 to user 20 on that state, suspended after it has created
  message 1; then a \<open>join_chat\<close> of user 20, whose history shows message 1, and the
  \<open>mark_as_read\<close> of user 20 for it, both run to their end; then the rest of the
  \<open>send_message\<close>.
\<close>

definition send_suspended :: "server \<times> (socket_id option \<times> object_id) option" where
  "send_suspended =
     send_message_create both_connected 1 3 (Oid 10) (Oid 20) hi
       \<lparr>c_id = 1, participants = [10, 20], lastMessage = None\<rparr>"

definition history_meanwhile :: "server \<times> emit list" where
  "history_meanwhile = join_chat (fst send_suspended) 2 (Oid 20) (Oid 10)"

definition read_meanwhile :: server where
  "read_meanwhile = fst (mark_as_read (fst history_meanwhile) 2 (Oid 1) (Oid 20))"

definition send_resumed :: server where
  "send_resumed =
     (case snd send_suspended of
        None \<Rightarrow> read_meanwhile
      | Some p \<Rightarrow> fst (send_message_finish read_meanwhile 1 (Oid 10) 1 p))"

text \<open>Fifty-one messages of chat 7, the \<open>i\<close>-th created at time \<open>i\<close>.\<close>

definition numbered_message :: "nat \<Rightarrow> message" where
  "numbered_message i =
     \<lparr>m_id = i, m_chatId = 7, m_senderId = 10, m_text = hi, m_status = Sent,
      m_readBy = [10], m_createdAt = i\<rparr>"

definition fifty_one_messages :: "message list" where
  "fifty_one_messages = map numbered_message [1..<52]"

section \<open>The order on stored messages\<close>

text \<open>
  \<open>message_le m m'\<close>: \<open>m'\<close> is the document \<open>m\<close> at a later time, its status not earlier
  in \<open>sent\<close>, \<open>delivered\<close>, \<open>read\<close> and its \<open>readBy\<close> an extension. \<open>messages_le ms ms'\<close>:
  every document of \<open>ms\<close> is still in \<open>ms'\<close>, at its place, and has only advanced.
\<close>

definition message_le :: "message \<Rightarrow> message \<Rightarrow> bool" where
  "message_le m m' =
     (m_id m' = m_id m \<and> status_rank (m_status m) \<le> status_rank (m_status m') \<and>
      prefix (m_readBy m) (m_readBy m'))"

definition messages_le :: "message list \<Rightarrow> message list \<Rightarrow> bool" where
  "messages_le ms ms' =
     (length ms \<le> length ms' \<and> list_all2 message_le ms (take (length ms) ms'))"

section \<open>Facts about the store\<close>

lemma fresh_id_greater: "i \<in> set ids \<Longrightarrow> i < fresh_id ids"
  by (induction ids) (auto simp: fresh_id_def)

lemma find_fresh_message: "find (\<lambda>m. m_id m = fresh_id (map m_id ms)) ms = None"
  using fresh_id_greater [of _ "map m_id ms"] by (fastforce simp: find_None_iff)

lemma find_fresh_chat: "find (\<lambda>c. c_id c = fresh_id (map c_id cs)) cs = None"
  using fresh_id_greater [of _ "map c_id cs"] by (fastforce simp: find_None_iff)

lemma find_snoc:
  "find P (xs @ [y]) =
     (case find P xs of None \<Rightarrow> (if P y then Some y else None) | Some x \<Rightarrow> Some x)"
  by (induction xs) auto

lemma updateOne_snoc:
  "find P xs = None \<Longrightarrow> P y \<Longrightarrow> updateOne P f (xs @ [y]) = xs @ [f y]"
  by (induction xs) (auto split: if_splits)

lemma find_updateOne:
  "(\<And>y. P y \<Longrightarrow> P (f y)) \<Longrightarrow> find P (updateOne P f xs) = map_option f (find P xs)"
  by (induction xs) auto

lemma length_updateOne [simp]: "length (updateOne P f xs) = length xs"
  by (induction xs) auto

lemma findChatById_Some: "findChatById c cs = Some ch \<Longrightarrow> c_id ch = c"
  by (auto simp: findChatById_def find_Some_iff)

lemma join_fields [simp]:
  "onlineUsers (join sock room s) = onlineUsers s"
  "sockets (join sock room s) = sockets s"
  "socket_userId (join sock room s) = socket_userId s"
  "chats (join sock room s) = chats s"
  "messages (join sock room s) = messages s"
  by (simp_all add: join_def)

lemma join_receiver_fields [simp]:
  "onlineUsers (join_receiver s receiverId roomId) = onlineUsers s"
  "sockets (join_receiver s receiverId roomId) = sockets s"
  "socket_userId (join_receiver s receiverId roomId) = socket_userId s"
  "chats (join_receiver s receiverId roomId) = chats s"
  "messages (join_receiver s receiverId roomId) = messages s"
  by (simp_all add: join_receiver_def split: option.splits)

text \<open>The constructor depends on the store only.\<close>

lemma ObjectId_store:
  "chats s' = chats s \<Longrightarrow> messages s' = messages s \<Longrightarrow> ObjectId s' k x = ObjectId s k x"
  by (cases x) (simp_all add: generated_id_def stored_ids_def)

lemma ObjectId_join [simp]:
  "ObjectId (join sock room s) k x = ObjectId s k x"
  "ObjectId (join_receiver s receiverId roomId) k x = ObjectId s k x"
  by (rule ObjectId_store; simp)+

text \<open>A generated id is held by no document of the store.\<close>

lemma generated_id_fresh: "generated_id s k \<notin> set (stored_ids s)"
  using fresh_id_greater [of "generated_id s k" "stored_ids s"]
  by (auto simp: generated_id_def)

lemma m_id_newMessage [simp]: "m_id (newMessage ms now c a t) = fresh_id (map m_id ms)"
  by (simp add: newMessage_def)

lemma chat_or_create_fields:
  "chat_or_create found s senderId receiverId = Some (ch, s1) \<Longrightarrow>
   messages s1 = messages s \<and> onlineUsers s1 = onlineUsers s \<and> sockets s1 = sockets s"
  by (auto simp: chat_or_create_def split: option.splits)

section \<open>Whitespace-only text\<close>

lemma dropWhile_Nil_iff: "dropWhile P xs = [] \<longleftrightarrow> list_all P xs"
  by (induction xs) auto

text \<open>A text trims to the empty string exactly when all of it is whitespace.\<close>

lemma trim_empty_iff: "trim t = [] \<longleftrightarrow> list_all is_white_space t"
proof -
  have "trim t = [] \<longleftrightarrow> list_all is_white_space (dropWhile is_white_space t)"
    by (simp add: trim_def dropWhile_Nil_iff list_all_iff)
  also have "\<dots> \<longleftrightarrow> dropWhile is_white_space t = []"
    by (induction t) auto
  also have "\<dots> \<longleftrightarrow> list_all is_white_space t"
    by (rule dropWhile_Nil_iff)
  finally show ?thesis .
qed

lemma trim_hi: "trim hi = hi"
  by (simp add: hi_def trim_def is_white_space_def)

section \<open>What \<open>send_message\<close> does\<close>

text \<open>
  The tail of \<open>send_message\<close>, run without interruption: when the constructor accepts
  the sender, the new message is appended, already \<open>delivered\<close> when the receiver has an
  entry in \<open>onlineUsers\<close>; the broadcast \<open>receive_message\<close> carries it as created.
\<close>

lemma send_message_post_cases:
  "send_message_post s sock now senderId receiverId t ch =
     (case (ObjectId s 4 senderId, ObjectId s 5 senderId) of
        (Some a, Some r) \<Rightarrow>
          (let msg = (newMessage (messages s) now (c_id ch) a t)\<lparr>m_readBy := [r]\<rparr>;
               room = Oid (c_id ch);
               online = (onlineUsers s receiverId \<noteq> None)
           in ((join_receiver (join sock room s) receiverId (c_id ch))
                 \<lparr>messages := messages s @ [if online then msg\<lparr>m_status := Delivered\<rparr> else msg],
                  chats := updateOne (\<lambda>c. c_id c = c_id ch)
                             (\<lambda>c. c\<lparr>lastMessage := Some (m_id msg)\<rparr>) (chats s)\<rparr>,
               [(ToRoom room, ReceiveMessage (Some msg))]
               @ (if online then [(ToRoom room, MessageDelivered (m_id msg))] else [])
               @ [(ToRoomExcept room sock, UserStoppedTyping senderId)]))
      | _ \<Rightarrow>
          (join_receiver (join sock (Oid (c_id ch)) s) receiverId (c_id ch),
           [(ToSocket sock, MessageError)]))"
  by (auto simp: send_message_post_def send_message_create_def send_message_finish_def
        mark_delivered_def Let_def findMessageById_def find_snoc find_fresh_message
        updateOne_snoc split: option.splits)

lemma send_message_post_Oid:
  "send_message_post s sock now (Oid a) receiverId t ch =
     (let msg = newMessage (messages s) now (c_id ch) a t;
          room = Oid (c_id ch);
          online = (onlineUsers s receiverId \<noteq> None)
      in ((join_receiver (join sock room s) receiverId (c_id ch))
            \<lparr>messages := messages s @ [if online then msg\<lparr>m_status := Delivered\<rparr> else msg],
             chats := updateOne (\<lambda>c. c_id c = c_id ch)
                        (\<lambda>c. c\<lparr>lastMessage := Some (m_id msg)\<rparr>) (chats s)\<rparr>,
          [(ToRoom room, ReceiveMessage (Some msg))]
          @ (if online then [(ToRoom room, MessageDelivered (m_id msg))] else [])
          @ [(ToRoomExcept room sock, UserStoppedTyping (Oid a))]))"
  by (simp add: send_message_post_cases Let_def newMessage_def)


section \<open>Chat resolution\<close>

lemma findOne_all_swap: "findOne_all [b, a] cs = findOne_all [a, b] cs"
  by (simp add: findOne_all_def conj_commute)

lemma join_chat_Oid:
  "chats (fst (join_chat s sock (Oid a) (Oid b)))
     = (case findOne_all [a, b] (chats s) of
          Some ch \<Rightarrow> chats s
        | None \<Rightarrow> chats s @ [createChat a b (chats s)]) \<and>
   hd (snd (join_chat s sock (Oid a) (Oid b)))
     = (ToSocket sock,
        ChatJoined (case findOne_all [a, b] (chats s) of
                      Some ch \<Rightarrow> c_id ch
                    | None \<Rightarrow> c_id (createChat a b (chats s))))"
  by (auto simp: join_chat_def join_chat_lookup_def join_chat_resume_def chat_or_create_def
        notify_receiver_def join_def Let_def split: option.splits prod.splits if_splits)

lemma findOne_all_after_create:
  "findOne_all [a, b] cs = None \<Longrightarrow>
   findOne_all [a, b] (cs @ [createChat a b cs]) = Some (createChat a b cs)"
  by (simp add: findOne_all_def find_snoc createChat_def)

text \<open>
  Run one after the other, two \<open>join_chat\<close> for a pair answer with the same chat id, and
  the second creates nothing.
\<close>

lemma join_chat_twice_same_chat:
  "snd (hd (snd (join_chat (fst (join_chat s sock (Oid a) (Oid b))) sock' (Oid b) (Oid a))))
     = snd (hd (snd (join_chat s sock (Oid a) (Oid b)))) \<and>
   chats (fst (join_chat (fst (join_chat s sock (Oid a) (Oid b))) sock' (Oid b) (Oid a)))
     = chats (fst (join_chat s sock (Oid a) (Oid b)))"
proof (cases "findOne_all [a, b] (chats s)")
  case None
  then show ?thesis
    by (simp add: join_chat_Oid findOne_all_swap findOne_all_after_create)
next
  case (Some ch)
  then show ?thesis
    by (simp add: join_chat_Oid findOne_all_swap)
qed

text \<open>
  C1. Two \<open>join_chat\<close> for the pair of users 1 and 2, from the sockets 11 and 12, on a
  store without a chat for the pair, the second arriving while the \<open>findOne\<close> of the
  first is pending: both queries answer that there is no chat, both handlers create one,
  and the two clients are told different chat ids. The store then holds two chats for
  the pair.
\<close>

theorem join_chat_race_creates_two_chats:
  "join_chat_lookup empty_server (Oid 1) (Oid 2) = Some None \<and>
   join_chat_lookup empty_server (Oid 2) (Oid 1) = Some None \<and>
   chats (fst (join_chat_resume None
                 (fst (join_chat_resume None empty_server 11 (Oid 1) (Oid 2)))
                 12 (Oid 2) (Oid 1)))
     = [\<lparr>c_id = 1, participants = [1, 2], lastMessage = None\<rparr>,
        \<lparr>c_id = 2, participants = [2, 1], lastMessage = None\<rparr>] \<and>
   snd (join_chat_resume None empty_server 11 (Oid 1) (Oid 2))
     = [(ToSocket 11, ChatJoined 1), (ToSocket 11, ChatHistory [])] \<and>
   snd (join_chat_resume None
          (fst (join_chat_resume None empty_server 11 (Oid 1) (Oid 2)))
          12 (Oid 2) (Oid 1))
     = [(ToSocket 12, ChatJoined 2), (ToSocket 12, ChatHistory [])]"
  by (simp add: join_chat_lookup_def join_chat_resume_def chat_or_create_def findOne_all_def
        empty_server_def createChat_def fresh_id_def join_def notify_receiver_def
        chat_history_def chat_messages_def Let_def)

section \<open>Chat history\<close>

lemma chat_messages_numbered:
  "chat_messages 7 (map numbered_message is) = map numbered_message is"
  by (induction "is") (simp_all add: chat_messages_def numbered_message_def)

lemma sort_key_numbered:
  "sorted is \<Longrightarrow> sort_key m_createdAt (map numbered_message is) = map numbered_message is"
  by (rule sort_key_id_if_sorted) (simp add: comp_def numbered_message_def)

lemma numbered_message_mem:
  "numbered_message i \<in> set (map numbered_message is) \<longleftrightarrow> i \<in> set is"
  by (auto simp: numbered_message_def)

lemma chat_history_fifty_one:
  "chat_history 7 fifty_one_messages = map numbered_message [1..<51]"
  unfolding chat_history_def fifty_one_messages_def chat_messages_numbered
  by (simp add: sort_key_numbered take_map)

lemma chat_history_sorted: "sorted (map m_createdAt (chat_history c ms))"
  by (simp add: chat_history_def take_map [symmetric])

lemma chat_history_oldest:
  assumes "m \<in> set (chat_history c ms)"
    and "m' \<in> set (chat_messages c ms)" and "m' \<notin> set (chat_history c ms)"
  shows "m_createdAt m \<le> m_createdAt m'"
proof -
  let ?xs = "sort_key m_createdAt (chat_messages c ms)"
  have "sorted (map m_createdAt (take 50 ?xs @ drop 50 ?xs))" by simp
  then have le: "\<forall>x \<in> set (take 50 ?xs). \<forall>y \<in> set (drop 50 ?xs).
                   m_createdAt x \<le> m_createdAt y"
    unfolding map_append sorted_append by simp
  have "m' \<in> set (take 50 ?xs @ drop 50 ?xs)" using assms(2) by simp
  then have "m' \<in> set (drop 50 ?xs)"
    using assms(3) unfolding set_append chat_history_def by blast
  with le assms(1) show ?thesis by (simp add: chat_history_def)
qed

lemma join_chat_history:
  "\<exists>chatId rest. snd (join_chat s sock (Oid a) (Oid b)) =
      (ToSocket sock, ChatJoined chatId)
      # (ToSocket sock, ChatHistory (chat_history chatId (messages s))) # rest"
  by (auto simp: join_chat_def join_chat_lookup_def join_chat_resume_def chat_or_create_def
        Let_def split: option.splits prod.splits)

text \<open>
  C2, as stated, fails: of the 51 messages of chat 7 the history holds the messages 1
  to 50, and the newest, message 51, is not delivered.
\<close>

theorem chat_history_drops_newest_counterexample:
  "length (chat_messages 7 fifty_one_messages) = 51 \<and>
   chat_history 7 fifty_one_messages = map numbered_message [1..<51] \<and>
   numbered_message 51 \<in> set (chat_messages 7 fifty_one_messages) \<and>
   numbered_message 51 \<notin> set (chat_history 7 fifty_one_messages) \<and>
   numbered_message 1 \<in> set (chat_history 7 fifty_one_messages)"
  unfolding chat_history_fifty_one numbered_message_mem
  unfolding fifty_one_messages_def chat_messages_numbered numbered_message_mem
  by simp

text \<open>
  C2, amended. \<open>join_chat\<close> answers the requesting socket with \<open>chat_joined\<close> and then
  \<open>chat_history\<close>, which carries messages of that chat ordered oldest to newest, at most
  50 of them; when the chat holds more, they are the first 50 in that order: every
  message of the chat that is left out is at least as new as every message delivered.
\<close>

theorem chat_history_oldest_fifty:
  "(\<exists>chatId rest. snd (join_chat s sock (Oid a) (Oid b)) =
      (ToSocket sock, ChatJoined chatId)
      # (ToSocket sock, ChatHistory (chat_history chatId (messages s))) # rest) \<and>
   sorted (map m_createdAt (chat_history c ms)) \<and>
   set (chat_history c ms) \<subseteq> set (chat_messages c ms) \<and>
   length (chat_history c ms) = min 50 (length (chat_messages c ms)) \<and>
   (\<forall>m \<in> set (chat_history c ms).
      \<forall>m' \<in> set (chat_messages c ms) - set (chat_history c ms).
        m_createdAt m \<le> m_createdAt m')"
proof (intro conjI)
  show "set (chat_history c ms) \<subseteq> set (chat_messages c ms)"
    using set_take_subset [of 50 "sort_key m_createdAt (chat_messages c ms)"]
    by (simp add: chat_history_def)
  show "length (chat_history c ms) = min 50 (length (chat_messages c ms))"
    by (simp add: chat_history_def min.commute)
qed (use join_chat_history chat_history_sorted chat_history_oldest in blast)+

theorem chat_history_oldest_fifty_witness:
  "sorted (map m_createdAt (chat_history 7 fifty_one_messages)) \<and>
   length (chat_history 7 fifty_one_messages) = 50 \<and>
   numbered_message 1 \<in> set (chat_history 7 fifty_one_messages) \<and>
   numbered_message 51
     \<in> set (chat_messages 7 fifty_one_messages) - set (chat_history 7 fifty_one_messages) \<and>
   m_createdAt (numbered_message 1) \<le> m_createdAt (numbered_message 51)"
proof -
  note r = chat_history_oldest_fifty [of empty_server 0 0 0 7 fifty_one_messages]
  have i: "numbered_message 1 \<in> set (chat_history 7 fifty_one_messages)"
    unfolding chat_history_fifty_one numbered_message_mem by simp
  have o: "numbered_message 51
             \<in> set (chat_messages 7 fifty_one_messages) - set (chat_history 7 fifty_one_messages)"
    unfolding chat_history_fifty_one Diff_iff numbered_message_mem
    unfolding fifty_one_messages_def chat_messages_numbered numbered_message_mem
    by simp
  have l: "length (chat_messages 7 fifty_one_messages) = 51"
    unfolding fifty_one_messages_def chat_messages_numbered by simp
  from r have "sorted (map m_createdAt (chat_history 7 fifty_one_messages))" by blast
  moreover from r l have "length (chat_history 7 fifty_one_messages) = 50" by simp
  moreover from r i o
  have "m_createdAt (numbered_message 1) \<le> m_createdAt (numbered_message 51)"
    by blast
  ultimately show ?thesis using i o by blast
qed

section \<open>Sending\<close>

text \<open>
  C3, as stated, fails: user 30 is not a participant of chat 1, sends into it by its id,
  and the message is stored in the chat and broadcast to its room; no error is reported.
\<close>

theorem send_message_outsider_counterexample:
  "findChatById 1 (chats chat_10_20)
     = Some \<lparr>c_id = 1, participants = [10, 20], lastMessage = None\<rparr> \<and>
   30 \<notin> set [10, 20::nat] \<and>
   messages (fst (send_message chat_10_20 3 0 (Oid 30) (Oid 10) (Some hi) (Some (Oid 1))))
     = [\<lparr>m_id = 1, m_chatId = 1, m_senderId = 30, m_text = hi, m_status = Sent,
         m_readBy = [30], m_createdAt = 0\<rparr>] \<and>
   snd (send_message chat_10_20 3 0 (Oid 30) (Oid 10) (Some hi) (Some (Oid 1)))
     = [(ToRoom (Oid 1),
         ReceiveMessage (Some \<lparr>m_id = 1, m_chatId = 1, m_senderId = 30, m_text = hi,
           m_status = Sent, m_readBy = [30], m_createdAt = 0\<rparr>)),
        (ToRoomExcept (Oid 1) 3, UserStoppedTyping (Oid 30))]"
  by (simp add: send_message_def send_message_lookup_def chat_or_create_def
        send_message_post_Oid Let_def chat_10_20_def empty_server_def findChatById_def
        newMessage_def fresh_id_def trim_hi)
     (simp add: hi_def)

text \<open>
  C3, amended. A \<open>send_message\<close> with text and the id of an existing chat loads the chat
  by that id, stores the message in it and broadcasts it to the chat's room, whoever the
  sender is: the participants are not looked at, and no error is reported.
\<close>

theorem send_message_explicit_chat_unchecked:
  assumes "trim t \<noteq> []" and "findChatById c (chats s) = Some ch"
  shows "(\<exists>st. messages (fst (send_message s sock now (Oid a) receiverId (Some t) (Some (Oid c))))
            = messages s @ [(newMessage (messages s) now c a t)\<lparr>m_status := st\<rparr>]) \<and>
         (ToRoom (Oid c), ReceiveMessage (Some (newMessage (messages s) now c a t)))
            \<in> set (snd (send_message s sock now (Oid a) receiverId (Some t) (Some (Oid c)))) \<and>
         (ToSocket sock, MessageError)
            \<notin> set (snd (send_message s sock now (Oid a) receiverId (Some t) (Some (Oid c))))"
proof -
  have c: "c_id ch = c" using assms(2) by (rule findChatById_Some)
  have R: "send_message s sock now (Oid a) receiverId (Some t) (Some (Oid c))
             = send_message_post s sock now (Oid a) receiverId t ch"
    using assms
    by (simp add: send_message_def send_message_lookup_def chat_or_create_def Let_def)
  show ?thesis
  proof (cases "onlineUsers s receiverId")
    case None
    then show ?thesis
      unfolding R send_message_post_Oid
      by (auto simp: c Let_def intro: exI [of _ Sent] simp: newMessage_def)
  next
    case (Some r)
    then show ?thesis
      unfolding R send_message_post_Oid
      by (auto simp: c Let_def intro: exI [of _ Delivered])
  qed
qed

theorem send_message_explicit_chat_unchecked_witness:
  "trim hi \<noteq> [] \<and>
   findChatById 1 (chats chat_10_20)
     = Some \<lparr>c_id = 1, participants = [10, 20], lastMessage = None\<rparr> \<and>
   (\<exists>st. messages (fst (send_message chat_10_20 3 0 (Oid 30) (Oid 10) (Some hi) (Some (Oid 1))))
            = messages chat_10_20
              @ [(newMessage (messages chat_10_20) 0 1 30 hi)\<lparr>m_status := st\<rparr>]) \<and>
   (ToRoom (Oid 1), ReceiveMessage (Some (newMessage (messages chat_10_20) 0 1 30 hi)))
      \<in> set (snd (send_message chat_10_20 3 0 (Oid 30) (Oid 10) (Some hi) (Some (Oid 1)))) \<and>
   (ToSocket 3, MessageError)
      \<notin> set (snd (send_message chat_10_20 3 0 (Oid 30) (Oid 10) (Some hi) (Some (Oid 1))))"
proof -
  have t: "trim hi \<noteq> []" unfolding trim_hi by (simp add: hi_def)
  have f: "findChatById 1 (chats chat_10_20)
     = Some \<lparr>c_id = 1, participants = [10, 20], lastMessage = None\<rparr>"
    by (simp add: chat_10_20_def empty_server_def findChatById_def)
  show ?thesis
    using send_message_explicit_chat_unchecked [OF t f, of 3 0 30 "Oid 10"] t f by simp
qed

text \<open>
  C4. A \<open>send_message\<close> whose text trims to the empty string returns at the guard: the
  state (chats, messages, rooms, presence) is the one before, and nothing is emitted,
  neither a \<open>receive_message\<close> nor an error.
\<close>

theorem send_message_blank_text_is_noop:
  "trim t = [] \<Longrightarrow>
   send_message s sock now senderId receiverId (Some t) chatId = (s, [])"
  by (simp add: send_message_def)

theorem send_message_blank_text_is_noop_witness:
  "trim [0x20, 0x09, 0x0A] = [] \<and>
   send_message empty_server 1 0 (Oid 1) (Oid 2) (Some [0x20, 0x09, 0x0A]) None
     = (empty_server, [])"
  using send_message_blank_text_is_noop
          [of "[0x20, 0x09, 0x0A]" empty_server 1 0 "Oid 1" "Oid 2" None]
  by (simp add: trim_def is_white_space_def)




text \<open>
  C8, as stated, fails: users 30 and 40 have no chat, and a \<open>send_message\<close> of user 30
  naming chat 7, which does not exist, reports no error; it creates a chat for the pair
  and sends the message into it.
\<close>

theorem send_message_unknown_chat_counterexample:
  "findChatById 7 (chats chat_10_20) = None \<and>
   chats (fst (send_message chat_10_20 3 0 (Oid 30) (Oid 40) (Some hi) (Some (Oid 7))))
     = [\<lparr>c_id = 1, participants = [10, 20], lastMessage = None\<rparr>,
        \<lparr>c_id = 2, participants = [30, 40], lastMessage = Some 1\<rparr>] \<and>
   messages (fst (send_message chat_10_20 3 0 (Oid 30) (Oid 40) (Some hi) (Some (Oid 7))))
     = [\<lparr>m_id = 1, m_chatId = 2, m_senderId = 30, m_text = hi, m_status = Sent,
         m_readBy = [30], m_createdAt = 0\<rparr>] \<and>
   snd (send_message chat_10_20 3 0 (Oid 30) (Oid 40) (Some hi) (Some (Oid 7)))
     = [(ToRoom (Oid 2),
         ReceiveMessage (Some \<lparr>m_id = 1, m_chatId = 2, m_senderId = 30, m_text = hi,
           m_status = Sent, m_readBy = [30], m_createdAt = 0\<rparr>)),
        (ToRoomExcept (Oid 2) 3, UserStoppedTyping (Oid 30))]"
  by (simp add: send_message_def send_message_lookup_def chat_or_create_def
        send_message_post_Oid Let_def chat_10_20_def empty_server_def findChatById_def
        createChat_def newMessage_def fresh_id_def trim_hi)
     (simp add: hi_def)

text \<open>
  C8, amended. A \<open>send_message\<close> with text and the id of a chat that does not exist,
  between users who have no chat yet, reports no error: it creates a chat with the
  participants \<open>senderId\<close> and \<open>receiverId\<close>, stores the message in it and broadcasts it
  to the new chat's room. A \<open>mark_as_read\<close> for a message that does not exist changes
  nothing and emits nothing; \<open>typing\<close> and \<open>stop_typing\<close> look no chat up: whatever
  \<open>chatId\<close> names, they change nothing and emit their signal and no error.
\<close>

theorem send_message_unknown_chat_creates:
  assumes "trim t \<noteq> []" and "findChatById c (chats s) = None"
    and "findOne_all [a, b] (chats s) = None"
  shows "chats (fst (send_message s sock now (Oid a) (Oid b) (Some t) (Some (Oid c))))
           = chats s @ [(createChat a b (chats s))
                          \<lparr>lastMessage := Some (fresh_id (map m_id (messages s)))\<rparr>] \<and>
         (\<exists>st. messages (fst (send_message s sock now (Oid a) (Oid b) (Some t) (Some (Oid c))))
            = messages s @ [(newMessage (messages s) now (c_id (createChat a b (chats s))) a t)
                              \<lparr>m_status := st\<rparr>]) \<and>
         (ToRoom (Oid (c_id (createChat a b (chats s)))),
          ReceiveMessage
            (Some (newMessage (messages s) now (c_id (createChat a b (chats s))) a t)))
            \<in> set (snd (send_message s sock now (Oid a) (Oid b) (Some t) (Some (Oid c)))) \<and>
         (ToSocket sock, MessageError)
            \<notin> set (snd (send_message s sock now (Oid a) (Oid b) (Some t) (Some (Oid c)))) \<and>
         (findMessageById m (messages s) = None \<longrightarrow>
            mark_as_read s sock (Oid m) userId = (s, [])) \<and>
         typing s sock chatId userId = (s, [(ToRoomExcept chatId sock, UserTyping userId)]) \<and>
         stop_typing s sock chatId userId
           = (s, [(ToRoomExcept chatId sock, UserStoppedTyping userId)])"
proof -
  let ?ch = "createChat a b (chats s)"
  let ?s1 = "s\<lparr>chats := chats s @ [?ch]\<rparr>"
  have R: "send_message s sock now (Oid a) (Oid b) (Some t) (Some (Oid c))
             = send_message_post ?s1 sock now (Oid a) (Oid b) t ?ch"
    using assms(1,2)
    by (simp add: send_message_def send_message_lookup_def chat_or_create_def Let_def)
  have upd: "updateOne (\<lambda>c. c_id c = c_id ?ch) f (chats s @ [?ch]) = chats s @ [f ?ch]" for f
    by (rule updateOne_snoc) (simp_all add: createChat_def find_fresh_chat)
  have rest: "(findMessageById m (messages s) = None \<longrightarrow>
            mark_as_read s sock (Oid m) userId = (s, [])) \<and>
         typing s sock chatId userId = (s, [(ToRoomExcept chatId sock, UserTyping userId)]) \<and>
         stop_typing s sock chatId userId
           = (s, [(ToRoomExcept chatId sock, UserStoppedTyping userId)])"
    by (simp add: mark_as_read_def typing_def stop_typing_def)
  show ?thesis
  proof (cases "onlineUsers s (Oid b)")
    case None
    then show ?thesis
      unfolding R send_message_post_Oid using rest
      by (auto simp: Let_def upd intro: exI [of _ Sent] simp: newMessage_def)
  next
    case (Some r)
    then show ?thesis
      unfolding R send_message_post_Oid using rest
      by (auto simp: Let_def upd intro: exI [of _ Delivered])
  qed
qed

theorem send_message_unknown_chat_creates_witness:
  "trim hi \<noteq> [] \<and> findChatById 7 (chats chat_10_20) = None \<and>
   findOne_all [30, 40] (chats chat_10_20) = None \<and>
   chats (fst (send_message chat_10_20 3 0 (Oid 30) (Oid 40) (Some hi) (Some (Oid 7))))
     = chats chat_10_20 @ [(createChat 30 40 (chats chat_10_20))
                    \<lparr>lastMessage := Some (fresh_id (map m_id (messages chat_10_20)))\<rparr>] \<and>
   (ToSocket 3, MessageError)
      \<notin> set (snd (send_message chat_10_20 3 0 (Oid 30) (Oid 40) (Some hi) (Some (Oid 7)))) \<and>
   findMessageById 9 (messages chat_10_20) = None \<and>
   mark_as_read chat_10_20 3 (Oid 9) (Oid 30) = (chat_10_20, []) \<and>
   typing chat_10_20 3 (Oid 7) (Oid 30)
     = (chat_10_20, [(ToRoomExcept (Oid 7) 3, UserTyping (Oid 30))])"
proof -
  have t: "trim hi \<noteq> []" unfolding trim_hi by (simp add: hi_def)
  have f: "findChatById 7 (chats chat_10_20) = None"
    by (simp add: chat_10_20_def empty_server_def findChatById_def)
  have p: "findOne_all [30, 40] (chats chat_10_20) = None"
    by (simp add: chat_10_20_def empty_server_def findOne_all_def)
  have g: "findMessageById 9 (messages chat_10_20) = None"
    by (simp add: chat_10_20_def empty_server_def findMessageById_def)
  show ?thesis
    using send_message_unknown_chat_creates
            [OF t f p, where sock = 3 and now = 0 and m = 9 and userId = "Oid 30"
               and chatId = "Oid 7"]
      t f p g
    by simp
qed

section \<open>Read receipts\<close>

text \<open>
  With the canonical text of the reader, \<open>mark_as_read\<close> is idempotent: a reader who is
  in \<open>readBy\<close> changes nothing, and a second call with the same message and reader
  leaves the state of the first and emits nothing.
\<close>

lemma mark_as_read_canonical_idempotent:
  "(findMessageById mid (messages s) = Some msg \<and> u \<in> set (m_readBy msg) \<longrightarrow>
      mark_as_read s sock (Oid mid) (Oid u) = (s, [])) \<and>
   mark_as_read (fst (mark_as_read s sock messageId (Oid u))) sock' messageId (Oid u)
     = (fst (mark_as_read s sock messageId (Oid u)), [])"
  by (auto simp: mark_as_read_def findMessageById_def find_updateOne split: option.splits)

text \<open>
  C6. The reader 10 is in \<open>readBy\<close> of message 5. A \<open>mark_as_read\<close> that names reader
  10 by another text of its id (the constructor gives the ObjectId 10 for it) does not
  find the reader: it appends 10 again, sets the status and broadcasts \<open>message_read\<close>,
  and so does every further call with the same payload.
\<close>

theorem mark_as_read_respelled_reader_repeats:
  "findMessageById 5 (messages one_message)
     = Some \<lparr>m_id = 5, m_chatId = 1, m_senderId = 10, m_text = hi,
              m_status = Sent, m_readBy = [10], m_createdAt = 0\<rparr> \<and>
   ObjectId one_message 0 (Spelled 10 0) = Some 10 \<and>
   messages (fst (mark_as_read one_message 4 (Oid 5) (Spelled 10 0)))
     = [\<lparr>m_id = 5, m_chatId = 1, m_senderId = 10, m_text = hi,
         m_status = Read, m_readBy = [10, 10], m_createdAt = 0\<rparr>] \<and>
   snd (mark_as_read one_message 4 (Oid 5) (Spelled 10 0))
     = [(ToRoom (Oid 1), MessageRead (Oid 5) (Spelled 10 0))] \<and>
   messages (fst (mark_as_read (fst (mark_as_read one_message 4 (Oid 5) (Spelled 10 0)))
                    4 (Oid 5) (Spelled 10 0)))
     = [\<lparr>m_id = 5, m_chatId = 1, m_senderId = 10, m_text = hi,
         m_status = Read, m_readBy = [10, 10, 10], m_createdAt = 0\<rparr>] \<and>
   snd (mark_as_read (fst (mark_as_read one_message 4 (Oid 5) (Spelled 10 0)))
          4 (Oid 5) (Spelled 10 0))
     = [(ToRoom (Oid 1), MessageRead (Oid 5) (Spelled 10 0))]"
  by (simp add: mark_as_read_def findMessageById_def one_message_def)

text \<open>
  C10. \<open>mark_as_read\<close> for an existing message and a reader who is not in its \<open>readBy\<close>
  appends the reader, sets the status to \<open>read\<close> and broadcasts \<open>message_read\<close> with the
  message id and the reader to the room of the message's chat. The chats are not
  consulted: nothing is asked of the reader, who need not be a participant.
\<close>

theorem mark_as_read_appends_any_reader:
  assumes "findMessageById mid (messages s) = Some msg" and "u \<notin> set (m_readBy msg)"
  shows "mark_as_read s sock (Oid mid) (Oid u) =
           (s\<lparr>messages :=
                updateOne (\<lambda>m. m_id m = mid)
                  (\<lambda>m. m\<lparr>m_readBy := m_readBy m @ [u], m_status := Read\<rparr>) (messages s)\<rparr>,
            [(ToRoom (Oid (m_chatId msg)), MessageRead (Oid mid) (Oid u))]) \<and>
         findMessageById mid (messages (fst (mark_as_read s sock (Oid mid) (Oid u))))
           = Some (msg\<lparr>m_readBy := m_readBy msg @ [u], m_status := Read\<rparr>)"
  using assms
  by (simp add: mark_as_read_def findMessageById_def find_updateOne)

theorem mark_as_read_appends_any_reader_witness:
  "findMessageById 5 (messages one_message)
     = Some \<lparr>m_id = 5, m_chatId = 1, m_senderId = 10, m_text = hi,
              m_status = Sent, m_readBy = [10], m_createdAt = 0\<rparr> \<and>
   99 \<notin> set [10::nat] \<and>
   map participants (chats one_message) = [[10, 20]] \<and>
   snd (mark_as_read one_message 4 (Oid 5) (Oid 99))
     = [(ToRoom (Oid 1), MessageRead (Oid 5) (Oid 99))] \<and>
   findMessageById 5 (messages (fst (mark_as_read one_message 4 (Oid 5) (Oid 99))))
     = Some \<lparr>m_id = 5, m_chatId = 1, m_senderId = 10, m_text = hi,
              m_status = Read, m_readBy = [10, 99], m_createdAt = 0\<rparr>"
proof -
  have f: "findMessageById 5 (messages one_message)
     = Some \<lparr>m_id = 5, m_chatId = 1, m_senderId = 10, m_text = hi,
              m_status = Sent, m_readBy = [10], m_createdAt = 0\<rparr>"
    by (simp add: one_message_def findMessageById_def)
  have c: "map participants (chats one_message) = [[10, 20]]"
    by (simp add: one_message_def chat_10_20_def empty_server_def)
  have n: "99 \<notin> set (m_readBy \<lparr>m_id = 5, m_chatId = 1, m_senderId = 10, m_text = hi,
              m_status = Sent, m_readBy = [10], m_createdAt = 0\<rparr>)"
    by simp
  note r = mark_as_read_appends_any_reader [OF f n, of 4]
  from r [THEN conjunct1]
  have e: "snd (mark_as_read one_message 4 (Oid 5) (Oid 99))
     = [(ToRoom (Oid 1), MessageRead (Oid 5) (Oid 99))]"
    by simp
  from r [THEN conjunct2]
  have g: "findMessageById 5 (messages (fst (mark_as_read one_message 4 (Oid 5) (Oid 99))))
     = Some \<lparr>m_id = 5, m_chatId = 1, m_senderId = 10, m_text = hi,
              m_status = Read, m_readBy = [10, 99], m_createdAt = 0\<rparr>"
    by simp
  show ?thesis
    using f c e g by simp
qed

section \<open>Status and readers\<close>

lemma message_le_refl: "message_le m m"
  by (simp add: message_le_def)

lemma messages_le_refl: "messages_le ms ms"
  by (simp add: messages_le_def list_all2_refl message_le_refl)

lemma messages_le_snoc: "messages_le ms (ms @ [m])"
  by (simp add: messages_le_def list_all2_refl message_le_refl)

lemma list_all2_updateOne:
  "(\<And>m. message_le m (f m)) \<Longrightarrow> list_all2 message_le ms (updateOne P f ms)"
  by (induction ms) (simp_all add: list_all2_refl message_le_refl)

lemma messages_le_updateOne:
  "(\<And>m. message_le m (f m)) \<Longrightarrow> messages_le ms (updateOne P f ms)"
  by (simp add: messages_le_def list_all2_updateOne)

lemma messages_join_chat [simp]:
  "messages (fst (join_chat s sock senderId receiverId)) = messages s"
  by (auto simp: join_chat_def join_chat_resume_def chat_or_create_def notify_receiver_def
        Let_def split: option.splits prod.splits if_splits)

lemma status_rank_le_Read: "status_rank st \<le> status_rank Read"
  by (cases st) simp_all

lemma messages_le_mark_as_read:
  "messages_le (messages s) (messages (fst (mark_as_read s sock messageId userId)))"
  using status_rank_le_Read
  by (auto simp: mark_as_read_def messages_le_refl message_le_def
        intro!: messages_le_updateOne split: option.splits)

lemma messages_le_send_message_post:
  "messages_le (messages s)
     (messages (fst (send_message_post s sock now senderId receiverId t ch)))"
  by (auto simp: send_message_post_cases Let_def messages_le_snoc messages_le_refl
        split: option.splits)

lemma messages_le_send_message:
  "messages_le (messages s)
     (messages (fst (send_message s sock now senderId receiverId text chatId)))"
proof -
  have "messages_le (messages s)
          (messages (fst (send_message_post s1 sock now senderId receiverId t ch)))"
    if "chat_or_create found s senderId receiverId = Some (ch, s1)" for found ch s1 t
    using messages_le_send_message_post [of s1] chat_or_create_fields [OF that] by simp
  then show ?thesis
    by (auto simp: send_message_def messages_le_refl split: option.splits)
qed

text \<open>
  A handler that nothing interrupts keeps every stored message in its place and only
  advances it: the status does not move back and \<open>readBy\<close> is only extended.
\<close>

lemma handler_alone_only_advances:
  "messages_le (messages s) (messages (fst (connection s sock)))"
  "messages_le (messages s) (messages (fst (user_online s sock userId)))"
  "messages_le (messages s) (messages (fst (join_chat s sock senderId receiverId)))"
  "messages_le (messages s) (messages (fst (accept_chat s sock chatId)))"
  "messages_le (messages s)
     (messages (fst (send_message s sock now senderId receiverId text chatId')))"
  "messages_le (messages s) (messages (fst (typing s sock chatId userId)))"
  "messages_le (messages s) (messages (fst (stop_typing s sock chatId userId)))"
  "messages_le (messages s) (messages (fst (mark_as_read s sock messageId userId)))"
  "messages_le (messages s) (messages (fst (disconnect s sock)))"
  by (simp_all add: connection_def user_online_def accept_chat_def Let_def typing_def
        stop_typing_def disconnect_def messages_le_refl messages_le_mark_as_read
        messages_le_send_message split: option.splits)

text \<open>
  C7. User 10 sends to user 20, who is announced. The handler creates message 1 with
  status \<open>sent\<close> and is suspended at an \<open>await\<close> before its delivery update. Meanwhile
  user 20 joins the chat, is sent message 1 in the history and marks it as read: the
  status is \<open>read\<close>. The \<open>send_message\<close> then resumes and its update by id sets the
  status of message 1 to \<open>delivered\<close>: the status has moved back.
\<close>

theorem delivered_write_after_read_regresses:
  "send_message_lookup both_connected (Oid 10) (Oid 20) None
     = Some (Some \<lparr>c_id = 1, participants = [10, 20], lastMessage = None\<rparr>) \<and>
   chat_or_create (Some \<lparr>c_id = 1, participants = [10, 20], lastMessage = None\<rparr>)
       both_connected (Oid 10) (Oid 20)
     = Some (\<lparr>c_id = 1, participants = [10, 20], lastMessage = None\<rparr>, both_connected) \<and>
   messages (fst send_suspended)
     = [\<lparr>m_id = 1, m_chatId = 1, m_senderId = 10, m_text = hi, m_status = Sent,
         m_readBy = [10], m_createdAt = 3\<rparr>] \<and>
   snd send_suspended = Some (Some 2, 1) \<and>
   (ToSocket 2, ChatHistory [\<lparr>m_id = 1, m_chatId = 1, m_senderId = 10, m_text = hi,
                              m_status = Sent, m_readBy = [10], m_createdAt = 3\<rparr>])
     \<in> set (snd history_meanwhile) \<and>
   messages read_meanwhile
     = [\<lparr>m_id = 1, m_chatId = 1, m_senderId = 10, m_text = hi, m_status = Read,
         m_readBy = [10, 20], m_createdAt = 3\<rparr>] \<and>
   messages send_resumed
     = [\<lparr>m_id = 1, m_chatId = 1, m_senderId = 10, m_text = hi, m_status = Delivered,
         m_readBy = [10, 20], m_createdAt = 3\<rparr>] \<and>
   \<not> messages_le (messages read_meanwhile) (messages send_resumed)"
proof -
  have b: "chats both_connected = [\<lparr>c_id = 1, participants = [10, 20], lastMessage = None\<rparr>]"
    "messages both_connected = []" "onlineUsers both_connected (Oid 20) = Some 2"
    "2 \<in> sockets both_connected" "onlineUsers both_connected (Oid 10) = None"
    by (simp_all add: both_connected_def chat_10_20_def connection_def user_online_def
          empty_server_def)
  have l: "send_message_lookup both_connected (Oid 10) (Oid 20) None
     = Some (Some \<lparr>c_id = 1, participants = [10, 20], lastMessage = None\<rparr>)"
    by (simp add: send_message_lookup_def findOne_all_def b)
  have c: "chat_or_create (Some \<lparr>c_id = 1, participants = [10, 20], lastMessage = None\<rparr>)
       both_connected (Oid 10) (Oid 20)
     = Some (\<lparr>c_id = 1, participants = [10, 20], lastMessage = None\<rparr>, both_connected)"
    by (simp add: chat_or_create_def)
  have s1: "messages (fst send_suspended)
     = [\<lparr>m_id = 1, m_chatId = 1, m_senderId = 10, m_text = hi, m_status = Sent,
         m_readBy = [10], m_createdAt = 3\<rparr>]"
    and s2: "snd send_suspended = Some (Some 2, 1)"
    and s3: "chats (fst send_suspended)
     = [\<lparr>c_id = 1, participants = [10, 20], lastMessage = None\<rparr>]"
    and s4: "onlineUsers (fst send_suspended) (Oid 10) = None"
    by (simp_all add: send_suspended_def send_message_create_def Let_def b newMessage_def
          fresh_id_def findMessageById_def trim_hi)
  have h1: "messages (fst history_meanwhile) = messages (fst send_suspended)"
    by (simp add: history_meanwhile_def)
  have h2: "(ToSocket 2, ChatHistory [\<lparr>m_id = 1, m_chatId = 1, m_senderId = 10, m_text = hi,
                              m_status = Sent, m_readBy = [10], m_createdAt = 3\<rparr>])
     \<in> set (snd history_meanwhile)"
    by (simp add: history_meanwhile_def join_chat_def join_chat_lookup_def
          join_chat_resume_def chat_or_create_def findOne_all_def notify_receiver_def
          chat_history_def chat_messages_def Let_def s1 s3 s4)
  have r: "messages read_meanwhile
     = [\<lparr>m_id = 1, m_chatId = 1, m_senderId = 10, m_text = hi, m_status = Read,
         m_readBy = [10, 20], m_createdAt = 3\<rparr>]"
    by (simp add: read_meanwhile_def mark_as_read_def findMessageById_def h1 s1)
  have f: "messages send_resumed
     = [\<lparr>m_id = 1, m_chatId = 1, m_senderId = 10, m_text = hi, m_status = Delivered,
         m_readBy = [10, 20], m_createdAt = 3\<rparr>]"
    by (simp add: send_resumed_def s2 send_message_finish_def mark_delivered_def r)
  have n: "\<not> messages_le (messages read_meanwhile) (messages send_resumed)"
    by (simp add: r f messages_le_def message_le_def)
  from l c s1 s2 h2 r f n show ?thesis by blast
qed

section \<open>Presence\<close>

text \<open>
  C9, as stated, fails: user 7 is bound to the sockets 1 and 2; when socket 1
  disconnects, socket 2 is still connected and bound to user 7, yet the entry of user 7
  is removed from \<open>onlineUsers\<close> and \<open>offline\<close> is broadcast.
\<close>

theorem disconnect_other_connection_counterexample:
  "2 \<in> sockets (fst (disconnect two_connections 1)) \<and>
   socket_userId (fst (disconnect two_connections 1)) 2 = Some (Oid 7) \<and>
   socket_userId two_connections 1 = Some (Oid 7) \<and>
   onlineUsers two_connections (Oid 7) = Some 2 \<and>
   onlineUsers (fst (disconnect two_connections 1)) (Oid 7) = None \<and>
   snd (disconnect two_connections 1) = [(ToAll, UserStatus (Oid 7) Offline)]"
  by (simp add: two_connections_def disconnect_def connection_def user_online_def
        empty_server_def)

text \<open>
  C9, amended. The disconnect of a connection bound to an identity removes that
  identity's entry from \<open>onlineUsers\<close> and broadcasts \<open>user_status\<close> with \<open>offline\<close> to all
  connections, whatever other connections the identity has: the registry keeps one
  socket id per identity.
\<close>

theorem disconnect_clears_presence:
  assumes "socket_userId s sock = Some u" and "truthy u"
  shows "onlineUsers (fst (disconnect s sock)) = (onlineUsers s)(u := None) \<and>
         snd (disconnect s sock) = [(ToAll, UserStatus u Offline)] \<and>
         sock \<notin> sockets (fst (disconnect s sock))"
  using assms by (simp add: disconnect_def)

theorem disconnect_clears_presence_witness:
  "socket_userId two_connections 1 = Some (Oid 7) \<and> truthy (Oid 7) \<and>
   onlineUsers (fst (disconnect two_connections 1))
     = (onlineUsers two_connections)(Oid 7 := None) \<and>
   snd (disconnect two_connections 1) = [(ToAll, UserStatus (Oid 7) Offline)] \<and>
   1 \<notin> sockets (fst (disconnect two_connections 1))"
proof -
  have b: "socket_userId two_connections 1 = Some (Oid 7)"
    by (simp add: two_connections_def connection_def user_online_def empty_server_def)
  have t: "truthy (Oid 7)" by simp
  show ?thesis
    using disconnect_clears_presence [OF b t] b by simp
qed

end
